theory Spec2Isabelle
  imports Main "HOL-Library.Word"
begin

section \<open>The page of the virtual stager: data\<close>

text \<open>
  The page is one script, \<^verbatim>\<open>src/index.tsx\<close>: a handler for the file picker and the drop
  area, and the click handler \<^verbatim>\<open>runRedesigner\<close> of the generate button. The handlers read
  and write elements of the document, raise alerts, read files through the browser's
  \<^verbatim>\<open>FileReader\<close> and call the remote model once. The elements they touch are the fields of
  the record \<open>world\<close>; what the browser and the remote model answer is the record
  \<open>platform\<close>. JavaScript's \<^verbatim>\<open>undefined\<close> and \<^verbatim>\<open>null\<close> are \<open>None\<close>.
\<close>

type_synonym byte = "8 word"

text \<open>A \<^verbatim>\<open>File\<close>: the declared type (\<^verbatim>\<open>file.type\<close>) and the bytes the reader reads.\<close>

record File =
  type :: string
  bytes :: "byte list"

text \<open>
  The parts of a request and of a response (\<^verbatim>\<open>Part\<close> of the client library): a part
  may carry text, inline data, both or neither. The script itself can leave \<^verbatim>\<open>data\<close>
  undefined (\<^verbatim>\<open>split(',')[1]\<close>), so \<open>data\<close> is optional.
\<close>

record Blob =
  data :: "string option"
  mimeType :: string

record Part =
  text' :: "string option"
  inlineData :: "Blob option"

record Content =
  parts :: "Part list option"

record Candidate =
  content :: "Content option"

record GenerateContentResponse =
  candidates :: "Candidate list option"

datatype Modality = IMAGE | TEXT

record GenerateContentConfig =
  responseModalities :: "Modality list"

record GenerateContentParameters =
  model :: string
  contents :: Content
  config :: GenerateContentConfig

text \<open>A thrown value: an \<^verbatim>\<open>Error\<close> or a \<^verbatim>\<open>TypeError\<close>, with its \<^verbatim>\<open>message\<close>.\<close>

datatype js_error = Error (message: string) | TypeError (message: string)

text \<open>
  How an awaited promise ends: it stays pending for ever, it rejects, or it resolves.
\<close>

datatype 'a promise = Pending | Rejected js_error | Resolved 'a

text \<open>The \<^verbatim>\<open>img\<close> element that \<^verbatim>\<open>previewFile\<close> creates.\<close>

record img =
  src :: string
  alt :: string

text \<open>
  What the script does not own: the configured key (\<^verbatim>\<open>process.env.API_KEY\<close>), the
  \<^verbatim>\<open>result\<close> a \<^verbatim>\<open>FileReader\<close> holds when \<^verbatim>\<open>loadend\<close> fires after
  \<^verbatim>\<open>readAsDataURL(file)\<close> (a string, or \<^verbatim>\<open>null\<close> when the read failed), and how the
  promise of \<^verbatim>\<open>ai.models.generateContent\<close> ends.
\<close>

record platform =
  API_KEY :: "string option"
  readAsDataURL :: "File \<Rightarrow> string option"
  generateContent :: "GenerateContentParameters \<Rightarrow> GenerateContentResponse promise"

text \<open>
  The elements the handlers read and write, named as the script's variables are, and
  the effects they leave behind: the alerts raised, the entries of \<^verbatim>\<open>console.error\<close>
  and the remote calls issued, each oldest first.
\<close>

record world =
  fileInput_files :: "File list option"
  imagePreviewContainer :: "img list"
  stylePromptInput_value :: string
  generateButton_disabled :: bool
  outputImage_display :: string
  outputImage_src :: string
  outputImage_alt :: string
  outputPlaceholder_textContent :: string
  outputPlaceholder_display :: string
  alerts :: "string list"
  console :: "js_error list"
  requests :: "GenerateContentParameters list"

section \<open>JavaScript primitives the script uses\<close>

text \<open>A string or \<^verbatim>\<open>undefined\<close> in a condition: true for a non-empty string only.\<close>

definition truthy :: "string option \<Rightarrow> bool" where
  "truthy v = (case v of None \<Rightarrow> False | Some s \<Rightarrow> s \<noteq> [])"

definition startsWith :: "string \<Rightarrow> string \<Rightarrow> bool" where
  "startsWith s p = (take (length p) s = p)"

text \<open>
  \<^verbatim>\<open>s.split(sep)\<close> for a one-character separator: the pieces between the separators,
  at least one piece.
\<close>

fun split_str :: "char \<Rightarrow> string \<Rightarrow> string list" where
  "split_str sep [] = [[]]"
| "split_str sep (c # cs) =
     (if c = sep then [] # split_str sep cs
      else (case split_str sep cs of
              [] \<Rightarrow> [[c]]
            | piece # pieces \<Rightarrow> (c # piece) # pieces))"

text \<open>\<^verbatim>\<open>xs[i]\<close>: \<^verbatim>\<open>undefined\<close> out of range.\<close>

definition index :: "'a list \<Rightarrow> nat \<Rightarrow> 'a option" where
  "index xs i = (if i < length xs then Some (xs ! i) else None)"

definition alert :: "string \<Rightarrow> world \<Rightarrow> world" where
  "alert msg w = w\<lparr>alerts := alerts w @ [msg]\<rparr>"

text \<open>An element is shown unless its inline style says \<^verbatim>\<open>display: none\<close>.\<close>

definition visible :: "string \<Rightarrow> bool" where
  "visible display = (display \<noteq> ''none'')"

section \<open>The intake surface\<close>

text \<open>
  \<^verbatim>\<open>previewFile\<close> starts a read and replaces the preview in the reader's
  \<^verbatim>\<open>onloadend\<close>, which fires after every read, failed or not. The model is the effect
  of that callback; a \<^verbatim>\<open>null\<close> result assigned to \<^verbatim>\<open>img.src\<close> is the text \<^verbatim>\<open>null\<close>.
\<close>

definition previewFile :: "platform \<Rightarrow> File \<Rightarrow> world \<Rightarrow> world" where
  "previewFile p file w =
     w\<lparr>imagePreviewContainer :=
         [\<lparr>src = (case readAsDataURL p file of None \<Rightarrow> ''null'' | Some result \<Rightarrow> result),
           alt = ''Preview of the uploaded room image.''\<rparr>]\<rparr>"

definition handleFiles :: "platform \<Rightarrow> File list \<Rightarrow> world \<Rightarrow> world" where
  "handleFiles p files w =
     (case files of
        [] \<Rightarrow> alert ''Please select an image file.'' w
      | file # _ \<Rightarrow>
          if startsWith (type file) ''image/'' then previewFile p file w
          else alert ''Please select an image file.'' w)"

text \<open>
  A drop: \<^verbatim>\<open>e.dataTransfer\<close> may be \<^verbatim>\<open>null\<close>; a non-empty file list is stored in the
  file input before it is handled.
\<close>

definition handleDrop :: "platform \<Rightarrow> File list option \<Rightarrow> world \<Rightarrow> world" where
  "handleDrop p dt w =
     (case dt of
        None \<Rightarrow> w
      | Some files \<Rightarrow>
          if length files > 0 then handleFiles p files (w\<lparr>fileInput_files := Some files\<rparr>)
          else w)"

text \<open>
  A change of the file input: the handler reads the selection from \<^verbatim>\<open>files\<close> of the
  event's target, the file input, where the browser has stored it, and does nothing when
  it is \<^verbatim>\<open>null\<close>.
\<close>

definition handleFileSelect :: "platform \<Rightarrow> world \<Rightarrow> world" where
  "handleFileSelect p w =
     (case fileInput_files w of
        None \<Rightarrow> w
      | Some files \<Rightarrow> handleFiles p files w)"

text \<open>\<^verbatim>\<open>fileInput.files?.[0]\<close>\<close>

definition first_file :: "world \<Rightarrow> File option" where
  "first_file w = (case fileInput_files w of None \<Rightarrow> None | Some files \<Rightarrow> index files 0)"

section \<open>The redesign exchange\<close>

text \<open>
  \<^verbatim>\<open>fileToGenerativePart\<close>: the promise resolves in \<^verbatim>\<open>onloadend\<close> with the second
  piece of the reader's result split at commas. When the result is \<^verbatim>\<open>null\<close> the callback
  throws before it calls \<^verbatim>\<open>resolve\<close>, and nothing rejects the promise: it stays pending.
\<close>

definition fileToGenerativePart :: "platform \<Rightarrow> File \<Rightarrow> Part promise" where
  "fileToGenerativePart p file =
     (case readAsDataURL p file of
        None \<Rightarrow> Pending
      | Some result \<Rightarrow>
          Resolved \<lparr>text' = None,
                    inlineData = Some \<lparr>data = index (split_str CHR '','' result) 1,
                                       mimeType = type file\<rparr>\<rparr>)"

text \<open>The instruction template, with the style interpolated.\<close>

definition prompt :: "string \<Rightarrow> string" where
  "prompt stylePrompt =
      ''\<newline>'' @
      ''          You are a photoshop expert AI. Your task is to perform an inpainting-style edit on the provided image.\<newline>'' @
      ''\<newline>'' @
      ''          **The Mask:** The '' @
      [CHR 0x22] @
      ''editable'' @
      [CHR 0x22] @
      '' area of the image is all furniture, the floor, the rug, and the walls.\<newline>'' @
      ''  \<newline>'' @
      ''          **The Unchanged Area:** The '' @
      [CHR 0x22] @
      ''uneditable'' @
      [CHR 0x22] @
      '' area is the window, the window frame, the light coming from the window, and the ceiling. You MUST NOT change these parts. Preserve them exactly as they are in the original image.\<newline>'' @
      ''  \<newline>'' @
      ''          **The Task:** Within the '' @
      [CHR 0x22] @
      ''editable'' @
      [CHR 0x22] @
      '' area only, redesign the room to match this style: '' @
      [CHR 0x22] @
      stylePrompt @
      [CHR 0x22] @
      ''\<newline>'' @
      ''        ''"

definition textPart :: "string \<Rightarrow> Part" where
  "textPart stylePrompt = \<lparr>text' = Some (prompt stylePrompt), inlineData = None\<rparr>"

definition request :: "Part \<Rightarrow> string \<Rightarrow> GenerateContentParameters" where
  "request imagePart stylePrompt =
     \<lparr>model = ''gemini-2.5-flash-image-preview'',
      contents = \<lparr>parts = Some [imagePart, textPart stylePrompt]\<rparr>,
      config = \<lparr>responseModalities = [IMAGE, TEXT]\<rparr>\<rparr>"

text \<open>
  \<^verbatim>\<open>response.candidates[0].content.parts\<close>, and the \<^verbatim>\<open>TypeError\<close> the engine throws
  where a step of the path is undefined or the parts cannot be iterated. The texts of
  these messages are the engine's; no theorem below depends on them.
\<close>

definition response_parts :: "GenerateContentResponse \<Rightarrow> js_error + Part list" where
  "response_parts response =
     (case candidates response of
        None \<Rightarrow> Inl (TypeError ''Cannot read properties of undefined'')
      | Some [] \<Rightarrow> Inl (TypeError ''Cannot read properties of undefined'')
      | Some (candidate # _) \<Rightarrow>
          (case content candidate of
             None \<Rightarrow> Inl (TypeError ''Cannot read properties of undefined'')
           | Some c \<Rightarrow>
               (case parts c of
                  None \<Rightarrow> Inl (TypeError ''undefined is not iterable'')
                | Some ps \<Rightarrow> Inr ps)))"

text \<open>
  The loop over the parts: \<^verbatim>\<open>base64Image\<close> starts undefined, takes the data of the
  first part that has \<^verbatim>\<open>inlineData\<close>, and the loop breaks there.
\<close>

fun scan_parts :: "Part list \<Rightarrow> string option" where
  "scan_parts [] = None"
| "scan_parts (part # rest) =
     (case inlineData part of
        Some blob \<Rightarrow> data blob
      | None \<Rightarrow> scan_parts rest)"

text \<open>The end of the \<^verbatim>\<open>try\<close> block: show the image, or throw.\<close>

definition display_result :: "string \<Rightarrow> string option \<Rightarrow> world \<Rightarrow> js_error + world" where
  "display_result stylePrompt base64Image w =
     (case base64Image of
        None \<Rightarrow> Inl (Error ''The model did not return an image. Please try again.'')
      | Some b \<Rightarrow>
          if b \<noteq> [] then
            Inr (w\<lparr>outputPlaceholder_display := ''none'',
                   outputImage_src := ''data:image/jpeg;base64,'' @ b,
                   outputImage_alt := ''Redesigned room in the style of '' @ stylePrompt,
                   outputImage_display := ''block''\<rparr>)
          else Inl (Error ''The model did not return an image. Please try again.''))"

definition catch_block :: "js_error \<Rightarrow> world \<Rightarrow> world" where
  "catch_block error w =
     w\<lparr>console := console w @ [error],
       outputPlaceholder_textContent := ''Sorry, an error occurred: '' @ message error,
       outputPlaceholder_display := ''block'',
       outputImage_display := ''none''\<rparr>"

definition finally_block :: "world \<Rightarrow> world" where
  "finally_block w = w\<lparr>generateButton_disabled := False\<rparr>"

text \<open>
  \<^verbatim>\<open>runRedesigner\<close> is an asynchronous function: it runs to its first \<^verbatim>\<open>await\<close>,
  is suspended there, and is resumed when the awaited promise settles. A configuration
  is the world together with the point the function has reached: returned, suspended on
  the read of the file, or suspended on the remote call.
\<close>

datatype exchange =
    Finished world
  | AwaitRead world File string
  | AwaitRemote world GenerateContentParameters string

text \<open>The text shown while the call is under way; its first three bytes are U+2728 in UTF-8.\<close>

definition generating :: string where
  "generating = [CHR 0xE2, CHR 0x9C, CHR 0xA8] @ '' Generating your new room... Please wait.''"

text \<open>The loading state the output is put in before the call.\<close>

definition loading :: "world \<Rightarrow> world" where
  "loading w =
     w\<lparr>generateButton_disabled := True,
       outputImage_display := ''none'',
       outputPlaceholder_textContent := generating,
       outputPlaceholder_display := ''block''\<rparr>"

text \<open>From the click to the first \<^verbatim>\<open>await\<close>: the three checks and the loading state.\<close>

definition runRedesigner_start :: "platform \<Rightarrow> world \<Rightarrow> exchange" where
  "runRedesigner_start p w =
     (if \<not> truthy (API_KEY p) then
        Finished (alert ''API key is not configured. Please set the environment variable.'' w)
      else
        (case first_file w of
           None \<Rightarrow> Finished (alert ''Please upload an image first.'' w)
         | Some file \<Rightarrow>
             let stylePrompt = stylePromptInput_value w in
             if stylePrompt = [] then Finished (alert ''Please enter a desired style.'' w)
             else AwaitRead (loading w) file stylePrompt))"

text \<open>From the image part to the second \<^verbatim>\<open>await\<close>: the request is built and issued.\<close>

definition resume_read :: "world \<Rightarrow> string \<Rightarrow> Part \<Rightarrow> exchange" where
  "resume_read w stylePrompt imagePart =
     (let req = request imagePart stylePrompt
      in AwaitRemote (w\<lparr>requests := requests w @ [req]\<rparr>) req stylePrompt)"

text \<open>
  From the settled call to the end: the scan, the display, and the \<^verbatim>\<open>catch\<close> and
  \<^verbatim>\<open>finally\<close> blocks. The outcome is the rejection or the response.
\<close>

definition resume_remote :: "world \<Rightarrow> string \<Rightarrow> js_error + GenerateContentResponse \<Rightarrow> world" where
  "resume_remote w stylePrompt outcome =
     (let tried =
        (case outcome of
           Inl error \<Rightarrow> Inl error
         | Inr response \<Rightarrow>
             (case response_parts response of
                Inl error \<Rightarrow> Inl error
              | Inr ps \<Rightarrow> display_result stylePrompt (scan_parts ps) w))
      in finally_block (case tried of Inl error \<Rightarrow> catch_block error w | Inr w' \<Rightarrow> w'))"

text \<open>
  One resumption of a suspended exchange: \<open>None\<close> when the awaited promise never
  settles, or when the function has returned and there is nothing to resume. Both
  \<^verbatim>\<open>await\<close>s stand in the \<^verbatim>\<open>try\<close> block, so a rejection goes to the \<^verbatim>\<open>catch\<close>
  block. The client is constructed with the key that passed the first check; a throw of
  the call itself is caught as a rejection is.
\<close>

fun resume :: "platform \<Rightarrow> exchange \<Rightarrow> exchange option" where
  "resume p (Finished w) = None"
| "resume p (AwaitRead w file stylePrompt) =
     (case fileToGenerativePart p file of
        Pending \<Rightarrow> None
      | Rejected error \<Rightarrow> Some (Finished (finally_block (catch_block error w)))
      | Resolved imagePart \<Rightarrow> Some (resume_read w stylePrompt imagePart))"
| "resume p (AwaitRemote w req stylePrompt) =
     (case generateContent p req of
        Pending \<Rightarrow> None
      | Rejected error \<Rightarrow> Some (Finished (resume_remote w stylePrompt (Inl error)))
      | Resolved response \<Rightarrow> Some (Finished (resume_remote w stylePrompt (Inr response))))"

text \<open>
  A click on the generate button: the configurations the function goes through, in
  order. There are two \<^verbatim>\<open>await\<close>s, so at most two resumptions. The run has completed
  when the last configuration is \<open>Finished\<close>.
\<close>

definition runRedesigner :: "platform \<Rightarrow> world \<Rightarrow> exchange list" where
  "runRedesigner p w =
     (let c0 = runRedesigner_start p w in
      c0 # (case resume p c0 of
              None \<Rightarrow> []
            | Some c1 \<Rightarrow>
                c1 # (case resume p c1 of
                        None \<Rightarrow> []
                      | Some c2 \<Rightarrow> [c2])))"

definition completed :: "exchange list \<Rightarrow> world option" where
  "completed run = (case last run of Finished w \<Rightarrow> Some w | _ \<Rightarrow> None)"

definition world_of :: "exchange \<Rightarrow> world" where
  "world_of c = (case c of Finished w \<Rightarrow> w | AwaitRead w _ _ \<Rightarrow> w | AwaitRemote w _ _ \<Rightarrow> w)"

definition suspended :: "exchange \<Rightarrow> bool" where
  "suspended c = (case c of Finished _ \<Rightarrow> False | _ \<Rightarrow> True)"

section \<open>The data URL of a file\<close>

text \<open>
  \<^verbatim>\<open>FileReader.readAsDataURL\<close> belongs to the browser, not to the script. What the
  File API asks of it is a data URL (RFC 2397) of the file's bytes in base64 (RFC 4648,
  with padding): \<^verbatim>\<open>data:<media type>;base64,<data>\<close>. The encoding is defined here to
  state what the image part of a request carries; the decoder is its inverse on the
  alphabet and the padding.
\<close>

definition base64_alphabet :: string where
  "base64_alphabet = ''ABCDEFGHIJKLMNOPQRSTUVWXYZabcdefghijklmnopqrstuvwxyz0123456789+/''"

definition base64_char :: "nat \<Rightarrow> char" where
  "base64_char n = base64_alphabet ! (n mod 64)"

fun base64 :: "byte list \<Rightarrow> string" where
  "base64 [] = []"
| "base64 [a] =
     [base64_char (unat a div 4), base64_char (unat a mod 4 * 16), CHR ''='', CHR ''='']"
| "base64 [a, b] =
     [base64_char (unat a div 4), base64_char (unat a mod 4 * 16 + unat b div 16),
      base64_char (unat b mod 16 * 4), CHR ''='']"
| "base64 (a # b # c # rest) =
     [base64_char (unat a div 4), base64_char (unat a mod 4 * 16 + unat b div 16),
      base64_char (unat b mod 16 * 4 + unat c div 64), base64_char (unat c mod 64)]
     @ base64 rest"







definition dataURL :: "string \<Rightarrow> byte list \<Rightarrow> string" where
  "dataURL mediaType bs = ''data:'' @ mediaType @ '';base64,'' @ base64 bs"

text \<open>A reader that succeeds, and writes the declared type of the file as the media type.\<close>

definition reads_dataURL :: "File \<Rightarrow> string option" where
  "reads_dataURL file = Some (dataURL (type file) (bytes file))"

section \<open>Sample inputs\<close>

text \<open>
  A page on which an earlier exchange has left its image, a selected file, responses of
  the model and platforms, used to run the definitions on concrete inputs.
\<close>

definition sample_file :: File where
  "sample_file = \<lparr>type = ''image/png'', bytes = [0x4D, 0x61, 0x6E]\<rparr>"

definition sample_world :: world where
  "sample_world =
     \<lparr>fileInput_files = Some [sample_file],
      imagePreviewContainer = [],
      stylePromptInput_value = ''Scandinavian'',
      generateButton_disabled = False,
      outputImage_display = ''block'',
      outputImage_src = ''data:image/jpeg;base64,b2xk'',
      outputImage_alt = ''Redesigned room in the style of Bohemian'',
      outputPlaceholder_textContent = ''Your redesigned room will appear here.'',
      outputPlaceholder_display = ''none'',
      alerts = [],
      console = [],
      requests = []\<rparr>"

definition response_of :: "Part list \<Rightarrow> GenerateContentResponse" where
  "response_of ps = \<lparr>candidates = Some [\<lparr>content = Some \<lparr>parts = Some ps\<rparr>\<rparr>]\<rparr>"

definition text_part :: "string \<Rightarrow> Part" where
  "text_part t = \<lparr>text' = Some t, inlineData = None\<rparr>"

definition image_part :: "string \<Rightarrow> string \<Rightarrow> Part" where
  "image_part d m = \<lparr>text' = None, inlineData = Some \<lparr>data = Some d, mimeType = m\<rparr>\<rparr>"

definition sample_texts :: "Part list" where
  "sample_texts = [text_part ''Here is'', text_part ''your room'']"

definition sample_response :: GenerateContentResponse where
  "sample_response =
     response_of (sample_texts @ image_part ''QUJD'' ''image/png'' # [image_part ''WFla'' ''image/gif''])"

definition answers :: "'a promise \<Rightarrow> GenerateContentParameters \<Rightarrow> 'a promise" where
  "answers outcome req = outcome"

definition sample_platform :: platform where
  "sample_platform =
     \<lparr>API_KEY = Some ''key'',
      readAsDataURL = reads_dataURL,
      generateContent = answers (Resolved sample_response)\<rparr>"

definition sample_request :: GenerateContentParameters where
  "sample_request = request (image_part ''TWFu'' ''image/png'') ''Scandinavian''"

text \<open>The sample page while the call is under way.\<close>

definition sample_calling :: world where
  "sample_calling = loading sample_world\<lparr>requests := [sample_request]\<rparr>"

text \<open>The sample platform with another end of the remote call.\<close>

definition platform_answering :: "GenerateContentResponse promise \<Rightarrow> platform" where
  "platform_answering outcome = sample_platform\<lparr>generateContent := answers outcome\<rparr>"

text \<open>A response whose first inline part has empty data, before a part that has an image.\<close>

definition hollow_response :: GenerateContentResponse where
  "hollow_response =
     response_of [text_part ''Sorry'', image_part [] ''image/png'', image_part ''WFla'' ''image/png'']"

text \<open>A response of text parts only.\<close>

definition text_response :: GenerateContentResponse where
  "text_response = response_of sample_texts"



text \<open>A reader whose read fails, and the sample platform with it.\<close>

definition unreadable :: "File \<Rightarrow> string option" where
  "unreadable file = None"

definition unreadable_platform :: platform where
  "unreadable_platform = sample_platform\<lparr>readAsDataURL := unreadable\<rparr>"

text \<open>A response without candidates, and one whose first inline part has no data.\<close>

definition bare_response :: GenerateContentResponse where
  "bare_response = \<lparr>candidates = None\<rparr>"

definition nodata_response :: GenerateContentResponse where
  "nodata_response =
     response_of [\<lparr>text' = None, inlineData = Some \<lparr>data = None, mimeType = ''image/png''\<rparr>\<rparr>,
                  image_part ''WFla'' ''image/png'']"

section \<open>Base64 decodes what it encodes\<close>





















section \<open>The run of an exchange\<close>

lemma response_parts_response_of: "response_parts (response_of ps) = Inr ps"
  by (simp add: response_parts_def response_of_def)

lemma scan_parts_skip:
  "\<forall>q \<in> set before. inlineData q = None \<Longrightarrow> scan_parts (before @ rest) = scan_parts rest"
  by (induction before) simp_all

lemma start_passes:
  "\<lbrakk>truthy (API_KEY p); first_file w = Some file; stylePromptInput_value w \<noteq> []\<rbrakk>
   \<Longrightarrow> runRedesigner_start p w = AwaitRead (loading w) file (stylePromptInput_value w)"
  by (simp add: runRedesigner_start_def)

lemma run_passes:
  assumes "truthy (API_KEY p)" and "first_file w = Some file"
    and "stylePromptInput_value w \<noteq> []"
  shows "runRedesigner p w =
     AwaitRead (loading w) file (stylePromptInput_value w) #
     (case fileToGenerativePart p file of
        Pending \<Rightarrow> []
      | Rejected error \<Rightarrow> [Finished (finally_block (catch_block error (loading w)))]
      | Resolved imagePart \<Rightarrow>
          resume_read (loading w) (stylePromptInput_value w) imagePart #
          (case generateContent p (request imagePart (stylePromptInput_value w)) of
             Pending \<Rightarrow> []
           | Rejected error \<Rightarrow>
               [Finished (resume_remote
                  (loading w\<lparr>requests := requests w @ [request imagePart (stylePromptInput_value w)]\<rparr>)
                  (stylePromptInput_value w) (Inl error))]
           | Resolved response \<Rightarrow>
               [Finished (resume_remote
                  (loading w\<lparr>requests := requests w @ [request imagePart (stylePromptInput_value w)]\<rparr>)
                  (stylePromptInput_value w) (Inr response))]))"
  unfolding runRedesigner_def start_passes [OF assms]
  by (simp add: resume_read_def loading_def Let_def split: promise.splits)

lemma run_refused:
  "runRedesigner_start p w = Finished w' \<Longrightarrow> runRedesigner p w = [Finished w']"
  by (simp add: runRedesigner_def)

section \<open>The sample inputs, evaluated\<close>

lemma sample_image_part:
  "fileToGenerativePart sample_platform sample_file = Resolved (image_part ''TWFu'' ''image/png'')"
  by (simp add: fileToGenerativePart_def sample_platform_def sample_file_def reads_dataURL_def
      dataURL_def base64_char_def base64_alphabet_def index_def image_part_def)

lemma sample_passes:
  "truthy (API_KEY sample_platform)"
  "first_file sample_world = Some sample_file"
  "stylePromptInput_value sample_world = ''Scandinavian''"
  "stylePromptInput_value sample_world \<noteq> []"
  "requests sample_world = []"
  by (simp_all add: sample_platform_def sample_world_def truthy_def index_def first_file_def)

section \<open>The shape of a run\<close>

lemma start_cases:
  "(\<exists>w'. runRedesigner_start p w = Finished w') \<or>
   (truthy (API_KEY p) \<and> (\<exists>file. first_file w = Some file) \<and>
    stylePromptInput_value w \<noteq> [])"
  by (auto simp: runRedesigner_start_def Let_def split: option.splits)

lemma fileToGenerativePart_not_rejected: "fileToGenerativePart p file \<noteq> Rejected error"
  by (simp add: fileToGenerativePart_def split: option.splits)

lemma fileToGenerativePart_image:
  "fileToGenerativePart p file = Resolved imagePart \<Longrightarrow>
   inlineData imagePart \<noteq> None \<and> text' imagePart = None"
  by (auto simp: fileToGenerativePart_def split: option.splits)

lemma intake_keeps_trigger:
  "generateButton_disabled (handleFiles q files v) = generateButton_disabled v"
  "generateButton_disabled (handleDrop q dt v) = generateButton_disabled v"
  "generateButton_disabled (handleFileSelect q v) = generateButton_disabled v"
  by (simp_all add: handleFiles_def handleDrop_def handleFileSelect_def previewFile_def alert_def
      Let_def split: list.splits option.splits)

lemma resume_remote_enabled: "\<not> generateButton_disabled (resume_remote w stylePrompt outcome)"
  by (simp add: resume_remote_def finally_block_def)

lemma completed_passes:
  assumes "truthy (API_KEY p)" and "first_file w = Some selected"
    and "stylePromptInput_value w \<noteq> []"
  shows "completed (runRedesigner p w) =
     (case fileToGenerativePart p selected of
        Pending \<Rightarrow> None
      | Rejected error \<Rightarrow> Some (finally_block (catch_block error (loading w)))
      | Resolved imagePart \<Rightarrow>
          (case generateContent p (request imagePart (stylePromptInput_value w)) of
             Pending \<Rightarrow> None
           | Rejected error \<Rightarrow>
               Some (resume_remote
                  (loading w\<lparr>requests := requests w @ [request imagePart (stylePromptInput_value w)]\<rparr>)
                  (stylePromptInput_value w) (Inl error))
           | Resolved response \<Rightarrow>
               Some (resume_remote
                  (loading w\<lparr>requests := requests w @ [request imagePart (stylePromptInput_value w)]\<rparr>)
                  (stylePromptInput_value w) (Inr response))))"
  unfolding run_passes [OF assms] completed_def
  by (simp add: resume_read_def Let_def split: promise.splits)

section \<open>The end of the exchange: the image shown, or the error caught\<close>

lemma resume_remote_shown:
  "\<lbrakk>response_parts response = Inr ps; scan_parts ps = Some b; b \<noteq> []\<rbrakk> \<Longrightarrow>
   resume_remote w stylePrompt (Inr response) =
     w\<lparr>outputPlaceholder_display := ''none'',
       outputImage_src := ''data:image/jpeg;base64,'' @ b,
       outputImage_alt := ''Redesigned room in the style of '' @ stylePrompt,
       outputImage_display := ''block'',
       generateButton_disabled := False\<rparr>"
  by (simp add: resume_remote_def display_result_def finally_block_def)

lemma resume_remote_rejected:
  "resume_remote w stylePrompt (Inl error) = finally_block (catch_block error w)"
  by (simp add: resume_remote_def)

lemma resume_remote_malformed:
  "response_parts response = Inl error \<Longrightarrow>
   resume_remote w stylePrompt (Inr response) = finally_block (catch_block error w)"
  by (simp add: resume_remote_def)

lemma resume_remote_no_image:
  "\<lbrakk>response_parts response = Inr ps; \<not> truthy (scan_parts ps)\<rbrakk> \<Longrightarrow>
   resume_remote w stylePrompt (Inr response) =
     finally_block
       (catch_block (Error ''The model did not return an image. Please try again.'') w)"
  by (simp add: resume_remote_def display_result_def truthy_def split: option.splits)

lemma caught_display:
  "outputImage_display (finally_block (catch_block error w)) = ''none''"
  "outputPlaceholder_display (finally_block (catch_block error w)) = ''block''"
  "outputPlaceholder_textContent (finally_block (catch_block error w)) =
     ''Sorry, an error occurred: '' @ message error"
  by (simp_all add: finally_block_def catch_block_def)

lemma sample_run:
  "completed (runRedesigner (platform_answering outcome) sample_world) =
     (case outcome of
        Pending \<Rightarrow> None
      | Rejected error \<Rightarrow> Some (resume_remote sample_calling ''Scandinavian'' (Inl error))
      | Resolved response \<Rightarrow> Some (resume_remote sample_calling ''Scandinavian'' (Inr response)))"
proof -
  have passes: "truthy (API_KEY (platform_answering outcome))"
    "first_file sample_world = Some sample_file"
    "stylePromptInput_value sample_world \<noteq> []"
    by (simp_all add: platform_answering_def sample_passes sample_platform_def truthy_def)
  have part: "fileToGenerativePart (platform_answering outcome) sample_file =
      Resolved (image_part ''TWFu'' ''image/png'')"
    using sample_image_part
    by (simp add: fileToGenerativePart_def platform_answering_def)
  show ?thesis
    unfolding completed_passes [OF passes] part
    by (simp add: platform_answering_def answers_def sample_calling_def sample_request_def
        sample_passes split: promise.splits)
qed

lemma sample_answering:
  "truthy (API_KEY (platform_answering outcome))"
  "fileToGenerativePart (platform_answering outcome) sample_file =
      Resolved (image_part ''TWFu'' ''image/png'')"
  "generateContent (platform_answering outcome) req = outcome"
  using sample_image_part
  by (simp_all add: platform_answering_def sample_platform_def truthy_def answers_def
      fileToGenerativePart_def)

lemma completed_outcome:
  assumes "truthy (API_KEY p)" and "first_file w = Some selected"
    and "stylePromptInput_value w \<noteq> []"
    and "completed (runRedesigner p w) = Some w'"
  shows "\<exists>imagePart outcome.
       fileToGenerativePart p selected = Resolved imagePart \<and>
       (case outcome of
          Inl error \<Rightarrow>
            generateContent p (request imagePart (stylePromptInput_value w)) = Rejected error
        | Inr response \<Rightarrow>
            generateContent p (request imagePart (stylePromptInput_value w)) = Resolved response) \<and>
       w' = resume_remote
              (loading w\<lparr>requests := requests w @ [request imagePart (stylePromptInput_value w)]\<rparr>)
              (stylePromptInput_value w) outcome"
proof -
  let ?sp = "stylePromptInput_value w"
  note ended = assms(4) [unfolded completed_passes [OF assms(1-3)]]
  from ended fileToGenerativePart_not_rejected [of p selected]
  obtain imagePart where part: "fileToGenerativePart p selected = Resolved imagePart"
    by (cases "fileToGenerativePart p selected") auto
  show ?thesis
  proof (cases "generateContent p (request imagePart ?sp)")
    case Pending
    with ended part show ?thesis by simp
  next
    case (Rejected error)
    with ended part show ?thesis
      by (intro exI [of _ imagePart] exI [of _ "Inl error"]) simp
  next
    case (Resolved response)
    with ended part show ?thesis
      by (intro exI [of _ imagePart] exI [of _ "Inr response"]) simp
  qed
qed

lemma scan_parts_none: "\<forall>q \<in> set ps. inlineData q = None \<Longrightarrow> scan_parts ps = None"
  by (induction ps) simp_all

lemma sample_scans:
  "response_parts sample_response =
     Inr (sample_texts @ image_part ''QUJD'' ''image/png'' # [image_part ''WFla'' ''image/gif''])"
  "scan_parts (sample_texts @ image_part ''QUJD'' ''image/png'' # [image_part ''WFla'' ''image/gif'']) =
     Some ''QUJD''"
  "response_parts text_response = Inr sample_texts"
  "scan_parts sample_texts = None"
  "response_parts hollow_response =
     Inr ([text_part ''Sorry''] @ image_part [] ''image/png'' # [image_part ''WFla'' ''image/png''])"
  "scan_parts ([text_part ''Sorry''] @ image_part [] ''image/png'' # [image_part ''WFla'' ''image/png'']) =
     Some []"
  by (simp_all add: sample_response_def text_response_def hollow_response_def
      response_parts_response_of sample_texts_def text_part_def image_part_def)


lemma sample_failures:
  "response_parts bare_response = Inl (TypeError ''Cannot read properties of undefined'')"
  "response_parts nodata_response =
     Inr [\<lparr>text' = None, inlineData = Some \<lparr>data = None, mimeType = ''image/png''\<rparr>\<rparr>,
          image_part ''WFla'' ''image/png'']"
  "scan_parts [\<lparr>text' = None, inlineData = Some \<lparr>data = None, mimeType = ''image/png''\<rparr>\<rparr>,
          image_part ''WFla'' ''image/png''] = None"
  by (simp_all add: bare_response_def nodata_response_def response_parts_def response_of_def)

section \<open>Splitting a data URL at its commas\<close>




section \<open>The trigger during a run\<close>

text \<open>
  In a run that passes the three checks the trigger is disabled exactly in the
  configurations in which the function is suspended, the remote call among them, and a
  drop or a selection handled in the meantime leaves it disabled. A run that completes
  ends with the trigger enabled. The run completes exactly when the image part is made
  and the promise of the remote call settles.
\<close>

lemma trigger_while_suspended:
  assumes "truthy (API_KEY p)" and "first_file w = Some selected"
    and "stylePromptInput_value w \<noteq> []"
  shows "(\<forall>c \<in> set (runRedesigner p w). generateButton_disabled (world_of c) = suspended c) \<and>
    (\<forall>w'. completed (runRedesigner p w) = Some w' \<longrightarrow> \<not> generateButton_disabled w') \<and>
    ((\<exists>w'. completed (runRedesigner p w) = Some w') \<longleftrightarrow>
       (\<exists>imagePart. fileToGenerativePart p selected = Resolved imagePart \<and>
          generateContent p (request imagePart (stylePromptInput_value w)) \<noteq> Pending)) \<and>
    (\<forall>imagePart. fileToGenerativePart p selected = Resolved imagePart \<longrightarrow>
       (\<exists>w'. AwaitRemote w' (request imagePart (stylePromptInput_value w)) (stylePromptInput_value w)
               \<in> set (runRedesigner p w) \<and> generateButton_disabled w' \<and>
             generateButton_disabled (handleDrop q dt w') \<and>
             generateButton_disabled (handleFileSelect q (w'\<lparr>fileInput_files := selection\<rparr>))))"
proof (intro conjI)
  show "\<forall>c \<in> set (runRedesigner p w). generateButton_disabled (world_of c) = suspended c"
    unfolding run_passes [OF assms]
    by (auto simp: world_of_def suspended_def loading_def resume_read_def Let_def
        resume_remote_enabled finally_block_def split: promise.splits)
  show "\<forall>w'. completed (runRedesigner p w) = Some w' \<longrightarrow> \<not> generateButton_disabled w'"
    unfolding completed_passes [OF assms]
    by (auto simp: resume_remote_enabled finally_block_def split: promise.splits)
  show "(\<exists>w'. completed (runRedesigner p w) = Some w') \<longleftrightarrow>
       (\<exists>imagePart. fileToGenerativePart p selected = Resolved imagePart \<and>
          generateContent p (request imagePart (stylePromptInput_value w)) \<noteq> Pending)"
    unfolding completed_passes [OF assms]
    using fileToGenerativePart_not_rejected [of p selected]
    by (auto split: promise.splits)
  show "\<forall>imagePart. fileToGenerativePart p selected = Resolved imagePart \<longrightarrow>
       (\<exists>w'. AwaitRemote w' (request imagePart (stylePromptInput_value w)) (stylePromptInput_value w)
               \<in> set (runRedesigner p w) \<and> generateButton_disabled w' \<and>
             generateButton_disabled (handleDrop q dt w') \<and>
             generateButton_disabled (handleFileSelect q (w'\<lparr>fileInput_files := selection\<rparr>)))"
    unfolding run_passes [OF assms]
    by (auto simp: resume_read_def Let_def loading_def intake_keeps_trigger)
qed


text \<open>
  When the read of the selected file fails, the run stops at its first \<^verbatim>\<open>await\<close>: the
  function stays suspended in the loading state and the \<^verbatim>\<open>finally\<close> block is never
  reached.
\<close>

lemma failed_read_never_completes:
  assumes "truthy (API_KEY p)" and "first_file w = Some selected"
    and "stylePromptInput_value w \<noteq> []" and "readAsDataURL p selected = None"
  shows "runRedesigner p w = [AwaitRead (loading w) selected (stylePromptInput_value w)]"
    and "completed (runRedesigner p w) = None"
    and "generateButton_disabled (loading w)"
proof -
  have pending: "fileToGenerativePart p selected = Pending"
    using assms(4) by (simp add: fileToGenerativePart_def)
  show "runRedesigner p w = [AwaitRead (loading w) selected (stylePromptInput_value w)]"
    using pending by (simp add: run_passes [OF assms(1-3)])
  show "completed (runRedesigner p w) = None"
    using pending by (simp add: completed_passes [OF assms(1-3)])
  show "generateButton_disabled (loading w)"
    by (simp add: loading_def)
qed

lemma sample_unreadable:
  "truthy (API_KEY unreadable_platform)"
  "readAsDataURL unreadable_platform sample_file = None"
  by (simp_all add: unreadable_platform_def sample_platform_def unreadable_def truthy_def)

section \<open>The claims\<close>

text \<open>
  C1. Whatever the parts of the response are, the loop takes the data of the first part
  that carries inline data: when the parts before \<open>part\<close> carry none and \<open>part\<close>
  carries \<open>blob\<close>, the scan yields the data of \<open>blob\<close>, and the exchange ends as it
  would on a response made of \<open>part\<close> alone. The text parts before it and every part
  after it, image parts included, have no effect.
\<close>

theorem first_inline_part_wins:
  "\<lbrakk>\<forall>q \<in> set before. inlineData q = None; inlineData part = Some blob;
    response_parts response = Inr (before @ part # later)\<rbrakk> \<Longrightarrow>
   scan_parts (before @ part # later) = data blob \<and>
   resume_remote w stylePrompt (Inr response) =
     resume_remote w stylePrompt (Inr (response_of [part]))"
  by (simp add: scan_parts_skip resume_remote_def response_parts_response_of)

theorem first_inline_part_wins_witness:
  "inlineData (text_part ''Here is'') = None \<and> inlineData (text_part ''your room'') = None \<and>
   inlineData (image_part ''QUJD'' ''image/png'') = Some \<lparr>data = Some ''QUJD'', mimeType = ''image/png''\<rparr> \<and>
   response_parts sample_response =
     Inr (sample_texts @ image_part ''QUJD'' ''image/png'' # [image_part ''WFla'' ''image/gif'']) \<and>
   scan_parts (sample_texts @ image_part ''QUJD'' ''image/png'' # [image_part ''WFla'' ''image/gif'']) = Some ''QUJD'' \<and>
   outputImage_src (resume_remote sample_world ''Scandinavian'' (Inr sample_response)) =
     ''data:image/jpeg;base64,QUJD''"
  using first_inline_part_wins [of sample_texts
      "image_part ''QUJD'' ''image/png''" "\<lparr>data = Some ''QUJD'', mimeType = ''image/png''\<rparr>"
      sample_response "[image_part ''WFla'' ''image/gif'']" sample_world "''Scandinavian''"]
  by (simp add: sample_texts_def sample_response_def text_part_def image_part_def
      response_parts_response_of resume_remote_def display_result_def finally_block_def)

text \<open>
  C2. The three checks are made in the order credential, image, style. The first one
  that fails raises its alert and the function returns: the run is a single returned
  configuration whose world is the old one with that one alert added, so no later check
  is made, the function is never suspended and no remote call is issued.
\<close>

theorem preconditions_in_order:
  "(\<not> truthy (API_KEY p) \<longrightarrow>
      runRedesigner p w =
        [Finished (alert ''API key is not configured. Please set the environment variable.'' w)]) \<and>
   (truthy (API_KEY p) \<and> first_file w = None \<longrightarrow>
      runRedesigner p w = [Finished (alert ''Please upload an image first.'' w)]) \<and>
   (truthy (API_KEY p) \<and> first_file w \<noteq> None \<and> stylePromptInput_value w = [] \<longrightarrow>
      runRedesigner p w = [Finished (alert ''Please enter a desired style.'' w)]) \<and>
   (\<not> truthy (API_KEY p) \<or> first_file w = None \<or> stylePromptInput_value w = [] \<longrightarrow>
      (\<forall>c \<in> set (runRedesigner p w).
         \<not> suspended c \<and> requests (world_of c) = requests w \<and>
         length (alerts (world_of c)) = Suc (length (alerts w))))"
proof -
  have key: "runRedesigner p w =
        [Finished (alert ''API key is not configured. Please set the environment variable.'' w)]"
    if "\<not> truthy (API_KEY p)"
    using that by (simp add: run_refused runRedesigner_start_def)
  have image: "runRedesigner p w = [Finished (alert ''Please upload an image first.'' w)]"
    if "truthy (API_KEY p)" "first_file w = None"
    using that by (auto simp: run_refused runRedesigner_start_def)
  have style: "runRedesigner p w = [Finished (alert ''Please enter a desired style.'' w)]"
    if "truthy (API_KEY p)" "first_file w \<noteq> None" "stylePromptInput_value w = []"
    using that by (auto simp: run_refused runRedesigner_start_def)
  have quiet: "\<forall>c \<in> set (runRedesigner p w).
         \<not> suspended c \<and> requests (world_of c) = requests w \<and>
         length (alerts (world_of c)) = Suc (length (alerts w))"
    if "\<not> truthy (API_KEY p) \<or> first_file w = None \<or> stylePromptInput_value w = []"
  proof (cases "truthy (API_KEY p)")
    case False
    then show ?thesis by (simp add: key suspended_def world_of_def alert_def)
  next
    case True
    show ?thesis
    proof (cases "first_file w = None")
      case True
      with \<open>truthy (API_KEY p)\<close> show ?thesis
        by (simp add: image suspended_def world_of_def alert_def)
    next
      case False
      with True that have "stylePromptInput_value w = []" by simp
      with True False show ?thesis
        by (simp add: style suspended_def world_of_def alert_def)
    qed
  qed
  from key image style quiet show ?thesis by blast
qed

theorem preconditions_in_order_witness:
  "\<not> truthy (API_KEY (sample_platform\<lparr>API_KEY := None\<rparr>)) \<and>
   runRedesigner (sample_platform\<lparr>API_KEY := None\<rparr>)
       (sample_world\<lparr>fileInput_files := Some [], stylePromptInput_value := []\<rparr>) =
     [Finished (alert ''API key is not configured. Please set the environment variable.''
        (sample_world\<lparr>fileInput_files := Some [], stylePromptInput_value := []\<rparr>))] \<and>
   truthy (API_KEY sample_platform) \<and>
   runRedesigner sample_platform (sample_world\<lparr>fileInput_files := Some [], stylePromptInput_value := []\<rparr>) =
     [Finished (alert ''Please upload an image first.''
        (sample_world\<lparr>fileInput_files := Some [], stylePromptInput_value := []\<rparr>))] \<and>
   first_file (sample_world\<lparr>stylePromptInput_value := []\<rparr>) = Some sample_file \<and>
   runRedesigner sample_platform (sample_world\<lparr>stylePromptInput_value := []\<rparr>) =
     [Finished (alert ''Please enter a desired style.'' (sample_world\<lparr>stylePromptInput_value := []\<rparr>))] \<and>
   requests (alert ''Please enter a desired style.'' (sample_world\<lparr>stylePromptInput_value := []\<rparr>)) = []"
  using preconditions_in_order [of "sample_platform\<lparr>API_KEY := None\<rparr>"
      "sample_world\<lparr>fileInput_files := Some [], stylePromptInput_value := []\<rparr>"]
    preconditions_in_order [of sample_platform
      "sample_world\<lparr>fileInput_files := Some [], stylePromptInput_value := []\<rparr>"]
    preconditions_in_order [of sample_platform "sample_world\<lparr>stylePromptInput_value := []\<rparr>"]
  by (simp add: sample_platform_def sample_world_def truthy_def alert_def first_file_def
      index_def)

text \<open>
  C3. Every request the exchange issues has exactly two parts: first the image part made
  from the selected file (inline data, no text), then the text part (the template with
  the style, no inline data). It is issued for the first selected file and a non-empty
  style, and it is the one request added to the calls issued. Conversely, whenever the
  checks pass and the image part is made, this request is issued.
\<close>

theorem request_is_image_then_text:
  "(AwaitRemote w' req stylePrompt \<in> set (runRedesigner p w) \<longrightarrow>
      (\<exists>file imagePart.
         first_file w = Some file \<and>
         fileToGenerativePart p file = Resolved imagePart \<and>
         stylePrompt = stylePromptInput_value w \<and> stylePrompt \<noteq> [] \<and>
         req = request imagePart stylePrompt \<and>
         requests w' = requests w @ [req] \<and>
         parts (contents req) = Some [imagePart, textPart stylePrompt] \<and>
         inlineData imagePart \<noteq> None \<and> text' imagePart = None \<and>
         inlineData (textPart stylePrompt) = None \<and>
         text' (textPart stylePrompt) = Some (prompt stylePrompt))) \<and>
   (truthy (API_KEY p) \<and> first_file w = Some selected \<and>
    stylePromptInput_value w \<noteq> [] \<and> fileToGenerativePart p selected = Resolved part \<longrightarrow>
      AwaitRemote (loading w\<lparr>requests := requests w @ [request part (stylePromptInput_value w)]\<rparr>)
        (request part (stylePromptInput_value w)) (stylePromptInput_value w)
      \<in> set (runRedesigner p w))"
proof (intro conjI impI)
  assume member: "AwaitRemote w' req stylePrompt \<in> set (runRedesigner p w)"
  from start_cases [of p w] show "\<exists>file imagePart.
         first_file w = Some file \<and>
         fileToGenerativePart p file = Resolved imagePart \<and>
         stylePrompt = stylePromptInput_value w \<and> stylePrompt \<noteq> [] \<and>
         req = request imagePart stylePrompt \<and>
         requests w' = requests w @ [req] \<and>
         parts (contents req) = Some [imagePart, textPart stylePrompt] \<and>
         inlineData imagePart \<noteq> None \<and> text' imagePart = None \<and>
         inlineData (textPart stylePrompt) = None \<and>
         text' (textPart stylePrompt) = Some (prompt stylePrompt)"
  proof
    assume "\<exists>v. runRedesigner_start p w = Finished v"
    then obtain v where "runRedesigner p w = [Finished v]" by (auto dest: run_refused)
    with member show ?thesis by simp
  next
    assume passes: "truthy (API_KEY p) \<and> (\<exists>file. first_file w = Some file) \<and>
      stylePromptInput_value w \<noteq> []"
    then obtain f where head: "first_file w = Some f" by blast
    note run = run_passes [of p w f]
    show ?thesis
    proof (cases "fileToGenerativePart p f")
      case Pending
      with member passes head run show ?thesis by simp
    next
      case (Rejected error)
      with fileToGenerativePart_not_rejected show ?thesis by blast
    next
      case (Resolved imagePart)
      with member passes head run
      have "AwaitRemote w' req stylePrompt =
          resume_read (loading w) (stylePromptInput_value w) imagePart"
        by (auto split: promise.splits)
      then have "stylePrompt = stylePromptInput_value w"
        and "req = request imagePart stylePrompt"
        and "requests w' = requests w @ [req]"
        by (simp_all add: resume_read_def Let_def loading_def)
      with passes head Resolved fileToGenerativePart_image [OF Resolved] show ?thesis
        by (simp add: request_def textPart_def)
    qed
  qed
next
  assume "truthy (API_KEY p) \<and> first_file w = Some selected \<and>
    stylePromptInput_value w \<noteq> [] \<and> fileToGenerativePart p selected = Resolved part"
  then show "AwaitRemote (loading w\<lparr>requests := requests w @ [request part (stylePromptInput_value w)]\<rparr>)
        (request part (stylePromptInput_value w)) (stylePromptInput_value w)
      \<in> set (runRedesigner p w)"
    by (simp add: run_passes [of p w selected] resume_read_def Let_def loading_def)
qed

theorem request_is_image_then_text_witness:
  "truthy (API_KEY sample_platform) \<and>
   first_file sample_world = Some sample_file \<and>
   stylePromptInput_value sample_world = ''Scandinavian'' \<and>
   fileToGenerativePart sample_platform sample_file = Resolved (image_part ''TWFu'' ''image/png'') \<and>
   AwaitRemote
     (loading sample_world\<lparr>requests := [request (image_part ''TWFu'' ''image/png'') ''Scandinavian'']\<rparr>)
     (request (image_part ''TWFu'' ''image/png'') ''Scandinavian'') ''Scandinavian''
     \<in> set (runRedesigner sample_platform sample_world) \<and>
   parts (contents (request (image_part ''TWFu'' ''image/png'') ''Scandinavian'')) =
     Some [image_part ''TWFu'' ''image/png'', textPart ''Scandinavian'']"
  using request_is_image_then_text [of
      "loading sample_world\<lparr>requests := [request (image_part ''TWFu'' ''image/png'') ''Scandinavian'']\<rparr>"
      "request (image_part ''TWFu'' ''image/png'') ''Scandinavian''" "''Scandinavian''"
      sample_platform sample_world sample_file "image_part ''TWFu'' ''image/png''"]
  by (simp add: sample_image_part sample_passes)

text \<open>
  C4 fails in the code after a failed read. On the sample page, with the key configured,
  a file selected and a style typed, a click whose read of the file fails (the reader's
  result is \<^verbatim>\<open>null\<close>) leaves the run suspended on the read for ever: no remote call is
  issued, the run never completes, and the trigger, disabled by the loading state, is
  never enabled again.
\<close>

theorem trigger_stays_disabled_after_failed_read:
  "truthy (API_KEY unreadable_platform) \<and>
   first_file sample_world = Some sample_file \<and>
   stylePromptInput_value sample_world = ''Scandinavian'' \<and>
   readAsDataURL unreadable_platform sample_file = None \<and>
   runRedesigner unreadable_platform sample_world =
     [AwaitRead (loading sample_world) sample_file ''Scandinavian''] \<and>
   completed (runRedesigner unreadable_platform sample_world) = None \<and>
   generateButton_disabled (loading sample_world) \<and>
   requests (loading sample_world) = []"
  using failed_read_never_completes [OF sample_unreadable(1) sample_passes(2,4) sample_unreadable(2)]
    sample_unreadable sample_passes
  by (simp add: loading_def)

text \<open>
  C5. When a run that passed the checks has completed, exactly one of the output image
  and the placeholder is visible. If the call resolved and the scan of the response's
  parts gave a non-empty string, the image is shown and the placeholder hidden; if the
  call was rejected, or the response gave no such string, the placeholder is shown and
  the image hidden.
\<close>

theorem image_or_placeholder:
  assumes "truthy (API_KEY p)" and "first_file w = Some selected"
    and "stylePromptInput_value w \<noteq> []"
    and "completed (runRedesigner p w) = Some w'"
  shows "visible (outputImage_display w') \<noteq> visible (outputPlaceholder_display w') \<and>
    (\<forall>imagePart response ps.
       fileToGenerativePart p selected = Resolved imagePart \<and>
       generateContent p (request imagePart (stylePromptInput_value w)) = Resolved response \<and>
       response_parts response = Inr ps \<and> truthy (scan_parts ps) \<longrightarrow>
       outputImage_display w' = ''block'' \<and> outputPlaceholder_display w' = ''none'') \<and>
    (\<forall>imagePart error.
       fileToGenerativePart p selected = Resolved imagePart \<and>
       generateContent p (request imagePart (stylePromptInput_value w)) = Rejected error \<longrightarrow>
       outputPlaceholder_display w' = ''block'' \<and> outputImage_display w' = ''none'') \<and>
    (\<forall>imagePart response.
       fileToGenerativePart p selected = Resolved imagePart \<and>
       generateContent p (request imagePart (stylePromptInput_value w)) = Resolved response \<and>
       (\<forall>ps. response_parts response = Inr ps \<longrightarrow> \<not> truthy (scan_parts ps)) \<longrightarrow>
       outputPlaceholder_display w' = ''block'' \<and> outputImage_display w' = ''none'')"
proof -
  let ?sp = "stylePromptInput_value w"
  from completed_outcome [OF assms]
  obtain imagePart outcome where part: "fileToGenerativePart p selected = Resolved imagePart"
    and outcome: "case outcome of
          Inl error \<Rightarrow> generateContent p (request imagePart ?sp) = Rejected error
        | Inr response \<Rightarrow> generateContent p (request imagePart ?sp) = Resolved response"
    and w': "w' = resume_remote (loading w\<lparr>requests := requests w @ [request imagePart ?sp]\<rparr>)
        ?sp outcome"
    by blast
  let ?w = "loading w\<lparr>requests := requests w @ [request imagePart ?sp]\<rparr>"
  show ?thesis
  proof (cases outcome)
    case (Inl error)
    with outcome part w' show ?thesis
      by (auto simp: resume_remote_rejected caught_display visible_def)
  next
    case (Inr response)
    with outcome have call: "generateContent p (request imagePart ?sp) = Resolved response"
      by simp
    show ?thesis
    proof (cases "response_parts response")
      case (Inl error)
      with call part w' Inr show ?thesis
        by (auto simp: resume_remote_malformed caught_display visible_def)
    next
      case parts: (Inr ps)
      show ?thesis
      proof (cases "truthy (scan_parts ps)")
        case True
        then obtain b where "scan_parts ps = Some b" "b \<noteq> []"
          by (auto simp: truthy_def split: option.splits)
        with call part w' Inr parts True show ?thesis
          by (auto simp: resume_remote_shown visible_def)
      next
        case False
        with call part w' Inr parts show ?thesis
          by (auto simp: resume_remote_no_image caught_display visible_def)
      qed
    qed
  qed
qed

theorem image_or_placeholder_witness:
  "truthy (API_KEY (platform_answering (Resolved sample_response))) \<and>
   first_file sample_world = Some sample_file \<and>
   stylePromptInput_value sample_world = ''Scandinavian'' \<and>
   completed (runRedesigner (platform_answering (Resolved sample_response)) sample_world) =
     Some (resume_remote sample_calling ''Scandinavian'' (Inr sample_response)) \<and>
   outputImage_display (resume_remote sample_calling ''Scandinavian'' (Inr sample_response)) = ''block'' \<and>
   outputPlaceholder_display (resume_remote sample_calling ''Scandinavian'' (Inr sample_response)) = ''none'' \<and>
   completed (runRedesigner (platform_answering (Rejected (Error ''Failed to fetch''))) sample_world) =
     Some (resume_remote sample_calling ''Scandinavian'' (Inl (Error ''Failed to fetch''))) \<and>
   outputImage_display (resume_remote sample_calling ''Scandinavian'' (Inl (Error ''Failed to fetch''))) =
     ''none'' \<and>
   outputPlaceholder_display (resume_remote sample_calling ''Scandinavian'' (Inl (Error ''Failed to fetch''))) =
     ''block'' \<and>
   completed (runRedesigner (platform_answering (Resolved text_response)) sample_world) =
     Some (resume_remote sample_calling ''Scandinavian'' (Inr text_response)) \<and>
   outputImage_display (resume_remote sample_calling ''Scandinavian'' (Inr text_response)) = ''none'' \<and>
   outputPlaceholder_display (resume_remote sample_calling ''Scandinavian'' (Inr text_response)) = ''block''"
proof -
  have shown: "completed (runRedesigner (platform_answering (Resolved sample_response)) sample_world) =
     Some (resume_remote sample_calling ''Scandinavian'' (Inr sample_response))"
    and rejected:
      "completed (runRedesigner (platform_answering (Rejected (Error ''Failed to fetch''))) sample_world) =
       Some (resume_remote sample_calling ''Scandinavian'' (Inl (Error ''Failed to fetch'')))"
    and empty: "completed (runRedesigner (platform_answering (Resolved text_response)) sample_world) =
     Some (resume_remote sample_calling ''Scandinavian'' (Inr text_response))"
    by (simp_all add: sample_run)
  note one = image_or_placeholder [OF sample_answering(1) sample_passes(2,4) shown]
  note two = image_or_placeholder [OF sample_answering(1) sample_passes(2,4) rejected]
  note three = image_or_placeholder [OF sample_answering(1) sample_passes(2,4) empty]
  have a: "outputImage_display (resume_remote sample_calling ''Scandinavian'' (Inr sample_response)) = ''block'' \<and>
   outputPlaceholder_display (resume_remote sample_calling ''Scandinavian'' (Inr sample_response)) = ''none''"
    using one sample_answering(2,3) sample_scans(1,2) by (simp add: truthy_def)
  have b: "outputPlaceholder_display (resume_remote sample_calling ''Scandinavian'' (Inl (Error ''Failed to fetch''))) =
     ''block'' \<and>
     outputImage_display (resume_remote sample_calling ''Scandinavian'' (Inl (Error ''Failed to fetch''))) =
     ''none''"
    using two sample_answering(2,3) by simp
  have c: "outputPlaceholder_display (resume_remote sample_calling ''Scandinavian'' (Inr text_response)) = ''block'' \<and>
     outputImage_display (resume_remote sample_calling ''Scandinavian'' (Inr text_response)) = ''none''"
    using three sample_answering(2,3) sample_scans(3,4) by (simp add: truthy_def)
  from a b c shown rejected empty sample_answering(1) sample_passes show ?thesis by simp
qed

text \<open>
  C6 as stated fails for the missing credential: on a page that shows the image of an
  earlier exchange, a click without a configured key raises the alert and returns. The
  earlier image stays shown, and the placeholder stays hidden with its old text: no
  message reaches the output surface.
\<close>

theorem missing_credential_counterexample:
  "runRedesigner (sample_platform\<lparr>API_KEY := None\<rparr>) sample_world =
     [Finished (alert ''API key is not configured. Please set the environment variable.''
        sample_world)] \<and>
   outputImage_display
     (alert ''API key is not configured. Please set the environment variable.'' sample_world) =
     ''block'' \<and>
   outputPlaceholder_display
     (alert ''API key is not configured. Please set the environment variable.'' sample_world) =
     ''none'' \<and>
   outputPlaceholder_textContent
     (alert ''API key is not configured. Please set the environment variable.'' sample_world) =
     ''Your redesigned room will appear here.''"
  by (simp add: run_refused runRedesigner_start_def truthy_def alert_def sample_world_def)

text \<open>
  C6, amended. Every failure of the remote exchange surfaces a message in the output
  surface and hides the output image. When the checks pass and the image part is made,
  the run completes after a rejected call, after a response whose parts cannot be
  reached, and after a response whose scan gives no non-empty string (no part with
  inline data, or a first inline part whose data is empty or undefined): the placeholder
  then reads \<^verbatim>\<open>Sorry, an error occurred: \<close> followed by the message of the error, which
  in the last case says that the model did not return an image; the placeholder is
  shown and the image hidden. Every completed run that does not show the image ends so.
  A missing credential raises an alert instead and returns: the world is the old one
  with that alert added, the output surface as it was.
\<close>

theorem remote_failure_surfaces_message:
  "(truthy (API_KEY p) \<and> first_file w = Some selected \<and> stylePromptInput_value w \<noteq> [] \<and>
    fileToGenerativePart p selected = Resolved imagePart \<longrightarrow>
      (\<forall>error.
         generateContent p (request imagePart (stylePromptInput_value w)) = Rejected error \<longrightarrow>
         (\<exists>w'. completed (runRedesigner p w) = Some w' \<and>
            outputPlaceholder_textContent w' = ''Sorry, an error occurred: '' @ message error \<and>
            outputPlaceholder_display w' = ''block'' \<and> outputImage_display w' = ''none'')) \<and>
      (\<forall>response error.
         generateContent p (request imagePart (stylePromptInput_value w)) = Resolved response \<and>
         response_parts response = Inl error \<longrightarrow>
         (\<exists>w'. completed (runRedesigner p w) = Some w' \<and>
            outputPlaceholder_textContent w' = ''Sorry, an error occurred: '' @ message error \<and>
            outputPlaceholder_display w' = ''block'' \<and> outputImage_display w' = ''none'')) \<and>
      (\<forall>response ps.
         generateContent p (request imagePart (stylePromptInput_value w)) = Resolved response \<and>
         response_parts response = Inr ps \<and> \<not> truthy (scan_parts ps) \<longrightarrow>
         (\<exists>w'. completed (runRedesigner p w) = Some w' \<and>
            outputPlaceholder_textContent w' =
              ''Sorry, an error occurred: The model did not return an image. Please try again.'' \<and>
            outputPlaceholder_display w' = ''block'' \<and> outputImage_display w' = ''none''))) \<and>
   (truthy (API_KEY p) \<and> first_file w = Some selected \<and> stylePromptInput_value w \<noteq> [] \<and>
    completed (runRedesigner p w) = Some ended \<and> outputImage_display ended \<noteq> ''block'' \<longrightarrow>
      (\<exists>error.
         outputPlaceholder_textContent ended = ''Sorry, an error occurred: '' @ message error \<and>
         outputPlaceholder_display ended = ''block'' \<and> outputImage_display ended = ''none'')) \<and>
   ((\<forall>part \<in> set ps'. inlineData part = None) \<longrightarrow> \<not> truthy (scan_parts ps')) \<and>
   (\<not> truthy (API_KEY p) \<longrightarrow>
      runRedesigner p w =
        [Finished (alert ''API key is not configured. Please set the environment variable.'' w)] \<and>
      alert ''API key is not configured. Please set the environment variable.'' w =
        w\<lparr>alerts := alerts w @ [''API key is not configured. Please set the environment variable.'']\<rparr>)"
proof (intro conjI impI allI)
  fix error
  assume run: "truthy (API_KEY p) \<and> first_file w = Some selected \<and>
      stylePromptInput_value w \<noteq> [] \<and> fileToGenerativePart p selected = Resolved imagePart"
    and call: "generateContent p (request imagePart (stylePromptInput_value w)) = Rejected error"
  then show "\<exists>w'. completed (runRedesigner p w) = Some w' \<and>
            outputPlaceholder_textContent w' = ''Sorry, an error occurred: '' @ message error \<and>
            outputPlaceholder_display w' = ''block'' \<and> outputImage_display w' = ''none''"
    by (simp add: completed_passes [of p w selected] resume_remote_rejected caught_display)
next
  fix response error
  assume run: "truthy (API_KEY p) \<and> first_file w = Some selected \<and>
      stylePromptInput_value w \<noteq> [] \<and> fileToGenerativePart p selected = Resolved imagePart"
    and call: "generateContent p (request imagePart (stylePromptInput_value w)) = Resolved response \<and>
         response_parts response = Inl error"
  then show "\<exists>w'. completed (runRedesigner p w) = Some w' \<and>
            outputPlaceholder_textContent w' = ''Sorry, an error occurred: '' @ message error \<and>
            outputPlaceholder_display w' = ''block'' \<and> outputImage_display w' = ''none''"
    by (simp add: completed_passes [of p w selected] resume_remote_malformed caught_display)
next
  fix response ps
  assume run: "truthy (API_KEY p) \<and> first_file w = Some selected \<and>
      stylePromptInput_value w \<noteq> [] \<and> fileToGenerativePart p selected = Resolved imagePart"
    and call: "generateContent p (request imagePart (stylePromptInput_value w)) = Resolved response \<and>
         response_parts response = Inr ps \<and> \<not> truthy (scan_parts ps)"
  then show "\<exists>w'. completed (runRedesigner p w) = Some w' \<and>
            outputPlaceholder_textContent w' =
              ''Sorry, an error occurred: The model did not return an image. Please try again.'' \<and>
            outputPlaceholder_display w' = ''block'' \<and> outputImage_display w' = ''none''"
    by (simp add: completed_passes [of p w selected] resume_remote_no_image [of response ps]
        caught_display)
next
  assume run: "truthy (API_KEY p) \<and> first_file w = Some selected \<and>
      stylePromptInput_value w \<noteq> [] \<and>
      completed (runRedesigner p w) = Some ended \<and> outputImage_display ended \<noteq> ''block''"
  then obtain part outcome where ended: "ended = resume_remote
        (loading w\<lparr>requests := requests w @ [request part (stylePromptInput_value w)]\<rparr>)
        (stylePromptInput_value w) outcome"
    using completed_outcome [of p w selected ended] by blast
  let ?w = "loading w\<lparr>requests := requests w @ [request part (stylePromptInput_value w)]\<rparr>"
  have "\<exists>error. ended = finally_block (catch_block error ?w)"
  proof (cases outcome)
    case (Inl error)
    with ended show ?thesis by (auto simp: resume_remote_rejected)
  next
    case (Inr response)
    show ?thesis
    proof (cases "response_parts response")
      case (Inl error)
      with Inr ended show ?thesis by (auto simp: resume_remote_malformed)
    next
      case parts: (Inr ps)
      show ?thesis
      proof (cases "truthy (scan_parts ps)")
        case True
        then obtain b where "scan_parts ps = Some b" "b \<noteq> []"
          by (auto simp: truthy_def split: option.splits)
        with Inr parts ended run show ?thesis by (simp add: resume_remote_shown)
      next
        case False
        with Inr parts ended show ?thesis by (auto simp: resume_remote_no_image)
      qed
    qed
  qed
  then show "\<exists>error.
         outputPlaceholder_textContent ended = ''Sorry, an error occurred: '' @ message error \<and>
         outputPlaceholder_display ended = ''block'' \<and> outputImage_display ended = ''none''"
    by (auto simp: caught_display)
next
  assume "\<forall>part \<in> set ps'. inlineData part = None"
  then show "\<not> truthy (scan_parts ps')"
    by (simp add: scan_parts_none truthy_def)
next
  assume "\<not> truthy (API_KEY p)"
  then show "runRedesigner p w =
        [Finished (alert ''API key is not configured. Please set the environment variable.'' w)]"
    by (simp add: run_refused runRedesigner_start_def)
next
  show "alert ''API key is not configured. Please set the environment variable.'' w =
        w\<lparr>alerts := alerts w @ [''API key is not configured. Please set the environment variable.'']\<rparr>"
    by (simp add: alert_def)
qed

theorem remote_failure_surfaces_message_witness:
  "truthy (API_KEY (platform_answering (Rejected (Error ''Failed to fetch'')))) \<and>
   first_file sample_world = Some sample_file \<and>
   stylePromptInput_value sample_world = ''Scandinavian'' \<and>
   fileToGenerativePart (platform_answering (Rejected (Error ''Failed to fetch''))) sample_file =
     Resolved (image_part ''TWFu'' ''image/png'') \<and>
   completed (runRedesigner (platform_answering (Rejected (Error ''Failed to fetch''))) sample_world) =
     Some (resume_remote sample_calling ''Scandinavian'' (Inl (Error ''Failed to fetch''))) \<and>
   outputPlaceholder_textContent
       (resume_remote sample_calling ''Scandinavian'' (Inl (Error ''Failed to fetch''))) =
     ''Sorry, an error occurred: Failed to fetch'' \<and>
   outputImage_display (resume_remote sample_calling ''Scandinavian'' (Inl (Error ''Failed to fetch''))) =
     ''none'' \<and>
   response_parts bare_response = Inl (TypeError ''Cannot read properties of undefined'') \<and>
   completed (runRedesigner (platform_answering (Resolved bare_response)) sample_world) =
     Some (resume_remote sample_calling ''Scandinavian'' (Inr bare_response)) \<and>
   outputPlaceholder_textContent (resume_remote sample_calling ''Scandinavian'' (Inr bare_response)) =
     ''Sorry, an error occurred: Cannot read properties of undefined'' \<and>
   outputImage_display (resume_remote sample_calling ''Scandinavian'' (Inr bare_response)) = ''none'' \<and>
   inlineData (text_part ''Here is'') = None \<and> inlineData (text_part ''your room'') = None \<and>
   \<not> truthy (scan_parts sample_texts) \<and>
   completed (runRedesigner (platform_answering (Resolved text_response)) sample_world) =
     Some (resume_remote sample_calling ''Scandinavian'' (Inr text_response)) \<and>
   outputPlaceholder_textContent (resume_remote sample_calling ''Scandinavian'' (Inr text_response)) =
     ''Sorry, an error occurred: The model did not return an image. Please try again.'' \<and>
   outputPlaceholder_display (resume_remote sample_calling ''Scandinavian'' (Inr text_response)) =
     ''block'' \<and>
   outputImage_display (resume_remote sample_calling ''Scandinavian'' (Inr text_response)) = ''none'' \<and>
   completed (runRedesigner (platform_answering (Resolved nodata_response)) sample_world) =
     Some (resume_remote sample_calling ''Scandinavian'' (Inr nodata_response)) \<and>
   outputPlaceholder_textContent (resume_remote sample_calling ''Scandinavian'' (Inr nodata_response)) =
     ''Sorry, an error occurred: The model did not return an image. Please try again.'' \<and>
   outputImage_display (resume_remote sample_calling ''Scandinavian'' (Inr nodata_response)) = ''none'' \<and>
   \<not> truthy (API_KEY (sample_platform\<lparr>API_KEY := Some []\<rparr>)) \<and>
   runRedesigner (sample_platform\<lparr>API_KEY := Some []\<rparr>) sample_world =
     [Finished (sample_world\<lparr>alerts :=
        [''API key is not configured. Please set the environment variable.'']\<rparr>)]"
proof -
  have ends:
    "completed (runRedesigner (platform_answering (Rejected (Error ''Failed to fetch''))) sample_world) =
       Some (resume_remote sample_calling ''Scandinavian'' (Inl (Error ''Failed to fetch'')))"
    "completed (runRedesigner (platform_answering (Resolved bare_response)) sample_world) =
       Some (resume_remote sample_calling ''Scandinavian'' (Inr bare_response))"
    "completed (runRedesigner (platform_answering (Resolved text_response)) sample_world) =
       Some (resume_remote sample_calling ''Scandinavian'' (Inr text_response))"
    "completed (runRedesigner (platform_answering (Resolved nodata_response)) sample_world) =
       Some (resume_remote sample_calling ''Scandinavian'' (Inr nodata_response))"
    by (simp_all add: sample_run)
  have texts: "inlineData (text_part ''Here is'') = None \<and> inlineData (text_part ''your room'') = None"
    by (simp add: text_part_def)
  have nokey: "\<not> truthy (API_KEY (sample_platform\<lparr>API_KEY := Some []\<rparr>))"
    by (simp add: truthy_def)
  have a: "outputPlaceholder_textContent
       (resume_remote sample_calling ''Scandinavian'' (Inl (Error ''Failed to fetch''))) =
     ''Sorry, an error occurred: Failed to fetch'' \<and>
     outputImage_display (resume_remote sample_calling ''Scandinavian'' (Inl (Error ''Failed to fetch''))) =
     ''none''"
    using remote_failure_surfaces_message [where p = "platform_answering (Rejected (Error ''Failed to fetch''))" and w = sample_world
        and selected = sample_file and imagePart = "image_part ''TWFu'' ''image/png''",
        THEN conjunct1]
      sample_answering sample_passes ends(1)
    by simp
  have b: "outputPlaceholder_textContent (resume_remote sample_calling ''Scandinavian'' (Inr bare_response)) =
     ''Sorry, an error occurred: Cannot read properties of undefined'' \<and>
     outputImage_display (resume_remote sample_calling ''Scandinavian'' (Inr bare_response)) = ''none''"
    using remote_failure_surfaces_message [where p = "platform_answering (Resolved bare_response)" and w = sample_world
        and selected = sample_file and imagePart = "image_part ''TWFu'' ''image/png''",
        THEN conjunct1]
      sample_answering sample_passes ends(2) sample_failures(1)
    by simp
  have none: "\<not> truthy (scan_parts sample_texts)"
    using remote_failure_surfaces_message [where ps' = sample_texts,
        THEN conjunct2, THEN conjunct2, THEN conjunct1] texts
    by (simp add: sample_texts_def)
  have c: "outputPlaceholder_textContent (resume_remote sample_calling ''Scandinavian'' (Inr text_response)) =
     ''Sorry, an error occurred: The model did not return an image. Please try again.'' \<and>
     outputPlaceholder_display (resume_remote sample_calling ''Scandinavian'' (Inr text_response)) =
     ''block'' \<and>
     outputImage_display (resume_remote sample_calling ''Scandinavian'' (Inr text_response)) = ''none''"
    using remote_failure_surfaces_message [where p = "platform_answering (Resolved text_response)" and w = sample_world
        and selected = sample_file and imagePart = "image_part ''TWFu'' ''image/png''",
        THEN conjunct1]
      sample_answering sample_passes ends(3) sample_scans(3) none
    by simp
  have d: "outputPlaceholder_textContent (resume_remote sample_calling ''Scandinavian'' (Inr nodata_response)) =
     ''Sorry, an error occurred: The model did not return an image. Please try again.'' \<and>
     outputImage_display (resume_remote sample_calling ''Scandinavian'' (Inr nodata_response)) = ''none''"
    using remote_failure_surfaces_message [where p = "platform_answering (Resolved nodata_response)" and w = sample_world
        and selected = sample_file and imagePart = "image_part ''TWFu'' ''image/png''",
        THEN conjunct1]
      sample_answering sample_passes ends(4) sample_failures(2,3)
    by (simp add: truthy_def)
  have f: "\<exists>error.
      outputPlaceholder_textContent (resume_remote sample_calling ''Scandinavian'' (Inr text_response)) =
        ''Sorry, an error occurred: '' @ message error"
    using remote_failure_surfaces_message [where p = "platform_answering (Resolved text_response)"
        and w = sample_world and selected = sample_file
        and ended = "resume_remote sample_calling ''Scandinavian'' (Inr text_response)",
        THEN conjunct2, THEN conjunct1]
      sample_answering(1) sample_passes(2,4) ends(3) c
    by auto
  have e: "runRedesigner (sample_platform\<lparr>API_KEY := Some []\<rparr>) sample_world =
     [Finished (sample_world\<lparr>alerts :=
        [''API key is not configured. Please set the environment variable.'']\<rparr>)]"
    using remote_failure_surfaces_message [where p = "sample_platform\<lparr>API_KEY := Some []\<rparr>"
        and w = sample_world, THEN conjunct2, THEN conjunct2, THEN conjunct2]
      nokey
    by (simp add: sample_world_def)
  from a b c d e f ends texts none nokey sample_answering(1,2) sample_passes sample_failures(1)
  show ?thesis by simp
qed







text \<open>
  C9. On every successful exchange the source of the output image is the text
  \<^verbatim>\<open>data:image/jpeg;base64,\<close> followed by the data of the first inline part, whatever
  type that part declares (\<open>declared\<close> does not occur in the result).
\<close>

theorem output_source_is_jpeg:
  assumes "truthy (API_KEY p)" and "first_file w = Some selected"
    and "stylePromptInput_value w \<noteq> []"
    and "fileToGenerativePart p selected = Resolved imagePart"
    and "generateContent p (request imagePart (stylePromptInput_value w)) = Resolved response"
    and "response_parts response = Inr (before @ part # later)"
    and "\<forall>q \<in> set before. inlineData q = None"
    and "inlineData part = Some \<lparr>data = Some b, mimeType = declared\<rparr>" and "b \<noteq> []"
  shows "\<exists>w'. completed (runRedesigner p w) = Some w' \<and>
      outputImage_src w' = ''data:image/jpeg;base64,'' @ b \<and>
      outputImage_alt w' = ''Redesigned room in the style of '' @ stylePromptInput_value w \<and>
      outputImage_display w' = ''block'' \<and> outputPlaceholder_display w' = ''none''"
proof -
  have "scan_parts (before @ part # later) = Some b"
    using assms(7,8) by (simp add: scan_parts_skip)
  with assms(6,9) show ?thesis
    by (simp add: completed_passes [OF assms(1-3)] assms(4,5) resume_remote_shown)
qed

theorem output_source_is_jpeg_witness:
  "truthy (API_KEY (platform_answering (Resolved sample_response))) \<and>
   first_file sample_world = Some sample_file \<and>
   stylePromptInput_value sample_world = ''Scandinavian'' \<and>
   fileToGenerativePart (platform_answering (Resolved sample_response)) sample_file =
     Resolved (image_part ''TWFu'' ''image/png'') \<and>
   response_parts sample_response =
     Inr (sample_texts @ image_part ''QUJD'' ''image/png'' # [image_part ''WFla'' ''image/gif'']) \<and>
   inlineData (text_part ''Here is'') = None \<and> inlineData (text_part ''your room'') = None \<and>
   inlineData (image_part ''QUJD'' ''image/png'') = Some \<lparr>data = Some ''QUJD'', mimeType = ''image/png''\<rparr> \<and>
   completed (runRedesigner (platform_answering (Resolved sample_response)) sample_world) =
     Some (resume_remote sample_calling ''Scandinavian'' (Inr sample_response)) \<and>
   outputImage_src (resume_remote sample_calling ''Scandinavian'' (Inr sample_response)) =
     ''data:image/jpeg;base64,QUJD''"
proof -
  have texts: "\<forall>q \<in> set sample_texts. inlineData q = None"
    by (simp add: sample_texts_def text_part_def)
  have image: "inlineData (image_part ''QUJD'' ''image/png'') =
      Some \<lparr>data = Some ''QUJD'', mimeType = ''image/png''\<rparr>"
    by (simp add: image_part_def)
  have filled: "''QUJD'' \<noteq> []" by simp
  have ended: "completed (runRedesigner (platform_answering (Resolved sample_response)) sample_world) =
     Some (resume_remote sample_calling ''Scandinavian'' (Inr sample_response))"
    by (simp add: sample_run)
  from output_source_is_jpeg [OF sample_answering(1) sample_passes(2,4) sample_answering(2)
      sample_answering(3) sample_scans(1) texts image filled]
  have "outputImage_src (resume_remote sample_calling ''Scandinavian'' (Inr sample_response)) =
     ''data:image/jpeg;base64,QUJD''"
    unfolding ended by simp
  with texts image ended sample_answering(1,2) sample_passes sample_scans(1) show ?thesis
    by (simp add: sample_texts_def)
qed

text \<open>
  C10. When the first part of the response that carries inline data carries the empty
  string, the scan stops there with the empty string, whatever parts come later, and the
  exchange takes the failure path: the placeholder is shown with the message that the
  model did not return an image, the image is hidden and its source is left as it was.
\<close>

theorem empty_data_is_no_image:
  assumes "truthy (API_KEY p)" and "first_file w = Some selected"
    and "stylePromptInput_value w \<noteq> []"
    and "fileToGenerativePart p selected = Resolved imagePart"
    and "generateContent p (request imagePart (stylePromptInput_value w)) = Resolved response"
    and "response_parts response = Inr (before @ part # later)"
    and "\<forall>q \<in> set before. inlineData q = None"
    and "inlineData part = Some blob" and "data blob = Some []"
  shows "scan_parts (before @ part # later) = Some [] \<and>
    (\<exists>w'. completed (runRedesigner p w) = Some w' \<and>
      outputPlaceholder_textContent w' =
        ''Sorry, an error occurred: The model did not return an image. Please try again.'' \<and>
      outputPlaceholder_display w' = ''block'' \<and> outputImage_display w' = ''none'' \<and>
      outputImage_src w' = outputImage_src w \<and>
      console w' = console w @ [Error ''The model did not return an image. Please try again.''])"
proof -
  have scan: "scan_parts (before @ part # later) = Some []"
    using assms(7-9) by (simp add: scan_parts_skip)
  then have "\<not> truthy (scan_parts (before @ part # later))"
    by (simp add: truthy_def)
  with assms(6) scan show ?thesis
    by (simp add: completed_passes [OF assms(1-3)] assms(4,5)
        resume_remote_no_image [of response "before @ part # later"]
        finally_block_def catch_block_def loading_def)
qed

theorem empty_data_is_no_image_witness:
  "truthy (API_KEY (platform_answering (Resolved hollow_response))) \<and>
   first_file sample_world = Some sample_file \<and>
   stylePromptInput_value sample_world = ''Scandinavian'' \<and>
   fileToGenerativePart (platform_answering (Resolved hollow_response)) sample_file =
     Resolved (image_part ''TWFu'' ''image/png'') \<and>
   response_parts hollow_response =
     Inr ([text_part ''Sorry''] @ image_part [] ''image/png'' # [image_part ''WFla'' ''image/png'']) \<and>
   inlineData (text_part ''Sorry'') = None \<and>
   inlineData (image_part [] ''image/png'') = Some \<lparr>data = Some [], mimeType = ''image/png''\<rparr> \<and>
   completed (runRedesigner (platform_answering (Resolved hollow_response)) sample_world) =
     Some (resume_remote sample_calling ''Scandinavian'' (Inr hollow_response)) \<and>
   outputPlaceholder_textContent (resume_remote sample_calling ''Scandinavian'' (Inr hollow_response)) =
     ''Sorry, an error occurred: The model did not return an image. Please try again.'' \<and>
   outputImage_display (resume_remote sample_calling ''Scandinavian'' (Inr hollow_response)) = ''none''"
proof -
  have texts: "\<forall>q \<in> set [text_part ''Sorry'']. inlineData q = None"
    by (simp add: text_part_def)
  have image: "inlineData (image_part [] ''image/png'') =
      Some \<lparr>data = Some [], mimeType = ''image/png''\<rparr>"
    by (simp add: image_part_def)
  have hollow: "data \<lparr>data = Some [], mimeType = ''image/png''\<rparr> = Some []" by simp
  have ended: "completed (runRedesigner (platform_answering (Resolved hollow_response)) sample_world) =
     Some (resume_remote sample_calling ''Scandinavian'' (Inr hollow_response))"
    by (simp add: sample_run)
  from empty_data_is_no_image [OF sample_answering(1) sample_passes(2,4) sample_answering(2)
      sample_answering(3) sample_scans(5) texts image hollow]
  have "outputPlaceholder_textContent (resume_remote sample_calling ''Scandinavian'' (Inr hollow_response)) =
     ''Sorry, an error occurred: The model did not return an image. Please try again.'' \<and>
   outputImage_display (resume_remote sample_calling ''Scandinavian'' (Inr hollow_response)) = ''none''"
    unfolding ended by simp
  with texts image ended sample_answering(1,2) sample_passes sample_scans(5) show ?thesis
    by simp
qed

end
